theory Spec2Isabelle
  imports Main
begin

unbundle bit_operations_syntax

section \<open>Byte strings\<close>

text \<open>
  Python \<open>bytes\<close> and \<open>bytearray\<close> values are lists of characters (one \<open>char\<close> per byte).
  The helpers below are the library operations that \<open>pulsar/utils/http/parser.py\<close> calls,
  with the meaning they have on \<open>bytes\<close> in Python 3.
\<close>

type_synonym bytes = string

definition CR :: char where
  "CR = CHR 0x0D"

definition LF :: char where
  "LF = CHR 0x0A"

definition CRLF :: bytes where
  "CRLF = [CR, LF]"

text \<open>\<open>s.find(sub)\<close>: the lowest index where \<open>sub\<close> starts, \<open>None\<close> for Python's \<open>-1\<close>.\<close>

fun find_sub :: "bytes \<Rightarrow> bytes \<Rightarrow> nat option" where
  "find_sub sub [] = (if sub = [] then Some 0 else None)"
| "find_sub sub (x # xs) =
     (if take (length sub) (x # xs) = sub then Some 0
      else map_option Suc (find_sub sub xs))"

text \<open>ASCII whitespace, as used by \<open>bytes.split()\<close>, \<open>bytes.strip()\<close>, \<open>int()\<close> and \<open>\s\<close>.\<close>

definition is_space :: "char \<Rightarrow> bool" where
  "is_space c \<longleftrightarrow> c \<in> set [CHR '' '', CHR 0x09, CHR 0x0A, CHR 0x0D, CHR 0x0B, CHR 0x0C]"

definition is_digit :: "char \<Rightarrow> bool" where
  "is_digit c \<longleftrightarrow> c \<in> set ''0123456789''"

definition upper_letters :: bytes where
  "upper_letters = ''ABCDEFGHIJKLMNOPQRSTUVWXYZ''"

definition lower_letters :: bytes where
  "lower_letters = ''abcdefghijklmnopqrstuvwxyz''"

text \<open>\<open>\w\<close> in a bytes pattern: ASCII letters, digits and the underscore.\<close>

definition is_word :: "char \<Rightarrow> bool" where
  "is_word c \<longleftrightarrow> c \<in> set upper_letters \<or> c \<in> set lower_letters \<or> is_digit c \<or> c = CHR ''_''"

definition lower_char :: "char \<Rightarrow> char" where
  "lower_char c = (case map_of (zip upper_letters lower_letters) c of Some d \<Rightarrow> d | None \<Rightarrow> c)"

definition upper_char :: "char \<Rightarrow> char" where
  "upper_char c = (case map_of (zip lower_letters upper_letters) c of Some d \<Rightarrow> d | None \<Rightarrow> c)"

definition lower :: "bytes \<Rightarrow> bytes" where
  "lower s = map lower_char s"

definition upper :: "bytes \<Rightarrow> bytes" where
  "upper s = map upper_char s"

definition lstrip :: "bytes \<Rightarrow> bytes" where
  "lstrip s = dropWhile is_space s"

definition rstrip :: "bytes \<Rightarrow> bytes" where
  "rstrip s = rev (dropWhile is_space (rev s))"

definition strip :: "bytes \<Rightarrow> bytes" where
  "strip s = lstrip (rstrip s)"

text \<open>\<open>s.rstrip(chars)\<close> removes trailing bytes that occur in \<open>chars\<close>.\<close>

definition rstrip_chars :: "bytes \<Rightarrow> bytes \<Rightarrow> bytes" where
  "rstrip_chars chars s = rev (dropWhile (\<lambda>c. c \<in> set chars) (rev s))"

text \<open>
  \<open>s.split(None, maxsplit)\<close>: fields separated by runs of whitespace, at most \<open>maxsplit\<close>
  splits; what is left after the last split keeps its trailing whitespace.
\<close>

fun split_ws :: "nat \<Rightarrow> bytes \<Rightarrow> bytes list" where
  "split_ws 0 s = (let r = dropWhile is_space s in if r = [] then [] else [r])"
| "split_ws (Suc n) s =
     (let r = dropWhile is_space s
      in if r = [] then []
         else takeWhile (\<lambda>c. \<not> is_space c) r # split_ws n (dropWhile (\<lambda>c. \<not> is_space c) r))"

definition digit_val :: "char \<Rightarrow> nat" where
  "digit_val c = (case find_sub [c] ''0123456789'' of Some i \<Rightarrow> i | None \<Rightarrow> 0)"

text \<open>
  The digits of a decimal literal for \<open>int()\<close>: single underscores may separate digits.
  The flag says whether the previous byte was a digit.
\<close>

fun parse_digits :: "bool \<Rightarrow> nat \<Rightarrow> bytes \<Rightarrow> nat option" where
  "parse_digits prev acc [] = (if prev then Some acc else None)"
| "parse_digits prev acc (c # cs) =
     (if is_digit c then parse_digits True (acc * 10 + digit_val c) cs
      else if c = CHR ''_'' \<and> prev then parse_digits False acc cs
      else None)"

text \<open>\<open>int(b)\<close> for a bytes object: \<open>None\<close> stands for the \<open>ValueError\<close> it raises.\<close>

definition py_int :: "bytes \<Rightarrow> int option" where
  "py_int b =
     (case strip b of
        [] \<Rightarrow> None
      | c # cs \<Rightarrow>
          if c = CHR ''-'' then map_option (\<lambda>n. - int n) (parse_digits False 0 cs)
          else if c = CHR ''+'' then map_option int (parse_digits False 0 cs)
          else map_option int (parse_digits False 0 (c # cs)))"

text \<open>\<open>'%s' % n\<close> for a non-negative integer.\<close>

fun str_of_nat :: "nat \<Rightarrow> string" where
  "str_of_nat n =
     (if n < 10 then [''0123456789'' ! n]
      else str_of_nat (n div 10) @ [''0123456789'' ! (n mod 10)])"

section \<open>Regular expressions of the parser\<close>

text \<open>
  \<open>METHOD_RE = [A-Z0-9$-_.]{3,20}\<close>. Inside the class, \<open>$-_\<close> is the range from byte 36 to
  byte 95. \<open>match\<close> anchors at the start only, so it succeeds when the first three bytes are
  in the class.
\<close>

definition is_method_char :: "char \<Rightarrow> bool" where
  "is_method_char c \<longleftrightarrow>
     c \<in> set upper_letters \<or> is_digit c \<or> (36 \<le> (of_char c :: nat) \<and> (of_char c :: nat) \<le> 95)
     \<or> c = CHR ''.''"

definition METHOD_RE_match :: "bytes \<Rightarrow> bool" where
  "METHOD_RE_match s \<longleftrightarrow> 3 \<le> length (takeWhile is_method_char s)"

text \<open>
  \<open>VERSION_RE = HTTP/(\d+).(\d+)\<close>. The dot is unescaped: it matches any byte but a line
  feed. The first group is greedy and backtracks, so \<open>try_version rest j\<close> tries the first
  group with \<open>j\<close> digits, then \<open>j - 1\<close>, down to one. The groups are returned as bytes.
\<close>

fun try_version :: "bytes \<Rightarrow> nat \<Rightarrow> (bytes \<times> bytes) option" where
  "try_version rest 0 = None"
| "try_version rest (Suc j) =
     (if Suc j < length rest \<and> rest ! Suc j \<noteq> LF
         \<and> takeWhile is_digit (drop (Suc (Suc j)) rest) \<noteq> []
      then Some (take (Suc j) rest, takeWhile is_digit (drop (Suc (Suc j)) rest))
      else try_version rest j)"

definition VERSION_RE_match :: "bytes \<Rightarrow> (bytes \<times> bytes) option" where
  "VERSION_RE_match s =
     (if take 5 s = ''HTTP/''
      then try_version (drop 5 s) (length (takeWhile is_digit (drop 5 s)))
      else None)"

text \<open>\<open>STATUS_RE = (\d{3})\s*(\w*)\<close>: three digits, optional whitespace, a word.\<close>

definition STATUS_RE_match :: "bytes \<Rightarrow> (bytes \<times> bytes) option" where
  "STATUS_RE_match s =
     (if 3 \<le> length s \<and> list_all is_digit (take 3 s)
      then Some (take 3 s, takeWhile is_word (dropWhile is_space (drop 3 s)))
      else None)"

text \<open>\<open>int(g)\<close> on a group of digits matched by \<open>\d+\<close>.\<close>

definition int_of_digits :: "bytes \<Rightarrow> int" where
  "int_of_digits g = int (fold (\<lambda>c acc. acc * 10 + digit_val c) g 0)"

section \<open>The HTTP parser state\<close>

datatype error =
  HttpParserError
  | HttpParserInvalidStatusError
  | HttpParserInvalidMethodError
  | ValueError
  | TypeError
  | AttributeError
  | RuntimeError

datatype ParserType = HTTP_REQUEST | HTTP_RESPONSE | HTTP_BOTH

text \<open>The class of the parser object: it decides which \<open>parse_first_line\<close> runs.\<close>

datatype parser_class = HttpParser_cls | HttpRequestParser_cls | HttpResponseParser_cls

text \<open>
  The protocol's callbacks are recorded, in the order of the calls. A protocol that lacks
  a callback gets \<open>passthrough\<close>, which does nothing; callbacks here do not raise.
\<close>

datatype callback =
  on_url bytes
  | on_status bytes
  | on_header bytes bytes
  | on_headers_complete
  | on_body bytes
  | on_message_complete

text \<open>The values of the enum \<open>F\<close>.\<close>

definition F_CHUNKED :: int where "F_CHUNKED = 1"
definition F_CONNECTION_KEEP_ALIVE :: int where "F_CONNECTION_KEEP_ALIVE = 2"
definition F_CONNECTION_CLOSE :: int where "F_CONNECTION_CLOSE = 4"
definition F_CONNECTION_UPGRADE :: int where "F_CONNECTION_UPGRADE = 8"
definition F_SKIPBODY :: int where "F_SKIPBODY = 64"

text \<open>\<open>sys.maxsize\<close> on a 64-bit build.\<close>

definition maxsize :: int where
  "maxsize = 9223372036854775807"

text \<open>
  The attributes of a parser object. The leading underscore of \<open>_position\<close> and
  \<open>_clen_rest\<close> is dropped; \<open>ptype\<close> is the attribute \<open>type\<close>. Attributes that are
  \<open>None\<close> until the first line is parsed are options. \<open>calls\<close> is the record of the
  callbacks invoked so far.
\<close>

record HttpParser =
  cls :: parser_class
  ptype :: ParserType
  buf :: bytes
  flags :: int
  position :: nat
  clen_rest :: int
  content_length :: int
  status :: "bytes option"
  status_code :: "int option"
  reason :: "bytes option"
  http_method :: "bytes option"
  version_major :: "int option"
  version_minor :: "int option"
  version :: "string option"
  calls :: "callback list"

definition init_parser :: "parser_class \<Rightarrow> ParserType \<Rightarrow> HttpParser" where
  "init_parser c t =
     \<lparr>cls = c, ptype = t, buf = [], flags = 0, position = 0, clen_rest = maxsize,
      content_length = maxsize, status = None, status_code = None, reason = None,
      http_method = None, version_major = None, version_minor = None, version = None,
      calls = []\<rparr>"

definition HttpRequestParser :: HttpParser where
  "HttpRequestParser = init_parser HttpRequestParser_cls HTTP_REQUEST"

definition HttpResponseParser :: HttpParser where
  "HttpResponseParser = init_parser HttpResponseParser_cls HTTP_RESPONSE"

definition callback :: "callback \<Rightarrow> HttpParser \<Rightarrow> HttpParser" where
  "callback c p = p\<lparr>calls := calls p @ [c]\<rparr>"

definition get_http_version :: "HttpParser \<Rightarrow> string option" where
  "get_http_version p = version p"

definition get_method :: "HttpParser \<Rightarrow> bytes option" where
  "get_method p = http_method p"

definition is_headers_complete :: "HttpParser \<Rightarrow> bool" where
  "is_headers_complete p \<longleftrightarrow> position p > 1"

definition is_message_complete :: "HttpParser \<Rightarrow> bool" where
  "is_message_complete p \<longleftrightarrow> position p > 2"

section \<open>Keep-alive\<close>

text \<open>
  \<open>status_code // 100\<close> and \<open>version_major > 0\<close> raise \<open>TypeError\<close> while the attribute
  is still \<open>None\<close>.
\<close>

definition http_message_needs_eof :: "HttpParser \<Rightarrow> error + bool" where
  "http_message_needs_eof p =
     (if ptype p = HTTP_REQUEST then Inr False
      else case status_code p of
        None \<Rightarrow> Inl TypeError
      | Some sc \<Rightarrow>
          if sc div 100 = 1 \<or> sc = 204 \<or> sc = 304 \<or> flags p AND F_SKIPBODY \<noteq> 0
          then Inr False
          else if flags p AND F_CHUNKED \<noteq> 0 \<or> content_length p \<noteq> maxsize
          then Inr False
          else Inr True)"

definition not_needs_eof :: "HttpParser \<Rightarrow> error + bool" where
  "not_needs_eof p = (case http_message_needs_eof p of Inl e \<Rightarrow> Inl e | Inr b \<Rightarrow> Inr (\<not> b))"

definition should_keep_alive :: "HttpParser \<Rightarrow> error + bool" where
  "should_keep_alive p =
     (case version_major p of
        None \<Rightarrow> Inl TypeError
      | Some major \<Rightarrow>
          if major > 0 then
            (case version_minor p of
               None \<Rightarrow> Inl TypeError
             | Some minor \<Rightarrow>
                 if minor > 0 then
                   (if flags p AND F_CONNECTION_CLOSE \<noteq> 0 then Inr False
                    else not_needs_eof p)
                 else if flags p AND F_CONNECTION_KEEP_ALIVE \<noteq> 0 then Inr False
                 else not_needs_eof p)
          else if flags p AND F_CONNECTION_KEEP_ALIVE \<noteq> 0 then Inr False
          else not_needs_eof p)"

section \<open>The first line\<close>

text \<open>
  \<open>fmt % arg\<close> with one argument that is not a tuple, for the conversions the parser's
  messages use (\<open>%s\<close> and the escape \<open>%%\<close>): the error it raises, if any. The number is
  the count of arguments not yet consumed. A \<open>%\<close> that ends the format raises
  \<open>ValueError\<close> (incomplete format) as soon as the scan reaches it.
\<close>

fun percent_scan :: "string \<Rightarrow> nat \<Rightarrow> error option" where
  "percent_scan [] n = (if n = 0 then None else Some TypeError)"
| "percent_scan [c] n =
     (if c = CHR ''%'' then Some ValueError else percent_scan [] n)"
| "percent_scan (c # d # ds) n =
     (if c \<noteq> CHR ''%'' then percent_scan (d # ds) n
      else if d = CHR ''%'' then percent_scan ds n
      else if d = CHR ''s'' then (if n = 0 then Some TypeError else percent_scan ds (n - 1))
      else Some ValueError)"

text \<open>
  \<open>raise E(fmt % arg)\<close>: the message is built first, so an error of the formatting is
  what is raised.
\<close>

definition raise_formatted :: "error \<Rightarrow> string \<Rightarrow> error" where
  "raise_formatted e fmt = (case percent_scan fmt 1 of Some e' \<Rightarrow> e' | None \<Rightarrow> e)"

text \<open>
  A method returns the error raised, or unit, together with the object as the call left it:
  an exception does not undo the assignments made before it.
\<close>

definition set_version :: "bytes \<times> bytes \<Rightarrow> HttpParser \<Rightarrow> HttpParser" where
  "set_version g p =
     p\<lparr>version_major := Some (int_of_digits (fst g)),
       version_minor := Some (int_of_digits (snd g)),
       version := Some (str_of_nat (nat (int_of_digits (fst g))) @ ''.''
                        @ str_of_nat (nat (int_of_digits (snd g))))\<rparr>"

definition request_parse_first_line :: "HttpParser \<Rightarrow> bytes \<Rightarrow> (error + unit) \<times> HttpParser" where
  "request_parse_first_line p line =
     (let bits = split_ws 2 line in
      if length bits \<noteq> 3 then (Inl HttpParserError, p)
      else if \<not> METHOD_RE_match (bits ! 0)
      then (Inl (raise_formatted HttpParserInvalidMethodError ''invalid Method: %s''), p)
      else
        let p1 = callback (on_url (bits ! 1)) (p\<lparr>http_method := Some (upper (bits ! 0))\<rparr>) in
        case VERSION_RE_match (bits ! 2) of
          None \<Rightarrow> (Inl (raise_formatted HttpParserError ''Invalid HTTP version: %s''), p1)
        | Some g \<Rightarrow> (Inr (), set_version g p1))"

definition response_parse_first_line :: "HttpParser \<Rightarrow> bytes \<Rightarrow> (error + unit) \<times> HttpParser" where
  "response_parse_first_line p line =
     (let bits = split_ws 1 line in
      if length bits \<noteq> 2 then (Inl HttpParserError, p)
      else
        case VERSION_RE_match (bits ! 0) of
          None \<Rightarrow> (Inl (raise_formatted HttpParserError ''Invalid HTTP version: %s''), p)
        | Some g \<Rightarrow>
            (case STATUS_RE_match (bits ! 1) of
               None \<Rightarrow> (Inl (raise_formatted HttpParserInvalidStatusError ''Invalid status %''), p)
             | Some m \<Rightarrow>
                 (Inr (),
                  (set_version g (callback (on_status (bits ! 1)) p))
                    \<lparr>status := Some (bits ! 1),
                     status_code := Some (int_of_digits (fst m)),
                     reason := Some (snd m)\<rparr>)))"

text \<open>The base class defines no \<open>parse_first_line\<close>: the call raises \<open>AttributeError\<close>.\<close>

definition parse_first_line :: "HttpParser \<Rightarrow> bytes \<Rightarrow> (error + unit) \<times> HttpParser" where
  "parse_first_line p line =
     (case cls p of
        HttpParser_cls \<Rightarrow> (Inl AttributeError, p)
      | HttpRequestParser_cls \<Rightarrow> request_parse_first_line p line
      | HttpResponseParser_cls \<Rightarrow> response_parse_first_line p line)"

section \<open>Headers\<close>

text \<open>
  Python keeps \<open>bytes\<close> and \<open>str\<close> apart: a \<open>bytes\<close> object never equals a \<open>str\<close>
  object, whatever their contents. Values that the source compares across the two types
  carry their type.
\<close>

datatype pystr = Bytes bytes | Str string

fun py_lower :: "pystr \<Rightarrow> pystr" where
  "py_lower (Bytes b) = Bytes (lower b)"
| "py_lower (Str s) = Str (lower s)"

text \<open>
  \<open>_connection\<close>: the value is lowered and compared with the \<open>str\<close> literals
  \<open>'keep-alive'\<close>, \<open>'close'\<close> and \<open>'upgrade'\<close>.
\<close>

definition connection :: "pystr \<Rightarrow> HttpParser \<Rightarrow> HttpParser" where
  "connection val p =
     (let v = py_lower val in
      if v = Str ''keep-alive'' then p\<lparr>flags := flags p OR F_CONNECTION_KEEP_ALIVE\<rparr>
      else if v = Str ''close'' then p\<lparr>flags := flags p OR F_CONNECTION_CLOSE\<rparr>
      else if v = Str ''upgrade'' then p\<lparr>flags := flags p OR F_CONNECTION_UPGRADE\<rparr>
      else p)"

text \<open>
  The body of the loop of \<open>_parse_headers\<close> for a line \<open>chunk\<close> that is not empty (the line
  is already removed from the buffer). The name and the value are \<open>bytes\<close>, cut out of the
  buffer; a line without a colon and a \<open>Content-Length\<close> that \<open>int\<close> rejects go on to
  the next line.
\<close>

definition header_line :: "bytes \<Rightarrow> HttpParser \<Rightarrow> HttpParser" where
  "header_line chunk p =
     (case find_sub '':'' chunk of
        None \<Rightarrow> p
      | Some i \<Rightarrow>
          let val = lstrip (drop (Suc i) chunk);
              name = strip (rstrip_chars [CHR '' '', CHR 0x09] (take i chunk));
              p1 = callback (on_header name val) p;
              lname = lower name
          in if lname = ''connection'' then connection (Bytes val) p1
             else if lname = ''content-length'' then
               (case py_int val of
                  None \<Rightarrow> p1
                | Some n \<Rightarrow> p1\<lparr>content_length := (if n < 0 then maxsize else n)\<rparr>)
             else if lname = ''transfer-encoding'' then
               (if lower val = ''chunked'' then p1\<lparr>flags := flags p1 OR F_CHUNKED\<rparr> else p1)
             else p1)"

text \<open>What \<open>_parse_headers\<close> returns: \<open>False\<close>, or \<open>None\<close> by falling off its end.\<close>

datatype pyret = PyFalse | PyNone

definition truthy :: "pyret \<Rightarrow> bool" where
  "truthy r = (case r of PyFalse \<Rightarrow> False | PyNone \<Rightarrow> False)"

function parse_headers :: "HttpParser \<Rightarrow> pyret \<times> HttpParser" where
  "parse_headers p =
     (case find_sub CRLF (buf p) of
        None \<Rightarrow> (PyFalse, p)
      | Some idx \<Rightarrow>
          if idx = 0
          then (PyNone,
                callback on_headers_complete
                  (p\<lparr>buf := drop (idx + 2) (buf p), clen_rest := content_length p, position := 2\<rparr>))
          else parse_headers (header_line (take idx (buf p)) (p\<lparr>buf := drop (idx + 2) (buf p)\<rparr>)))"
  by pat_completeness auto
termination
proof (relation "measure (\<lambda>p. length (buf p))")
  show "wf (measure (\<lambda>p. length (buf p)))" by simp
next
  fix p :: HttpParser and idx :: nat
  assume found: "find_sub CRLF (buf p) = Some idx"
  have bound: "find_sub CRLF s = Some i \<Longrightarrow> i + 2 \<le> length s" for s i
  proof (induction s arbitrary: i)
    case Nil
    then show ?case by (simp add: CRLF_def split: if_splits)
  next
    case (Cons x xs)
    show ?case
    proof (cases "take 2 (x # xs) = CRLF")
      case True
      then have "length (take 2 (x # xs)) = 2"
        by (simp add: CRLF_def)
      then have "2 \<le> length (x # xs)"
        unfolding length_take by linarith
      with True Cons.prems show ?thesis by (simp add: CRLF_def)
    next
      case False
      with Cons.prems obtain j where "find_sub CRLF xs = Some j" "i = Suc j"
        by (auto simp: CRLF_def)
      with Cons.IH show ?thesis by simp
    qed
  qed
  have keep: "buf (header_line c q) = buf q" for c q
    by (simp add: header_line_def Let_def callback_def connection_def split: option.splits)
  from found have "idx + 2 \<le> length (buf p)" by (rule bound)
  then show "(header_line (take idx (buf p)) (p\<lparr>buf := drop (idx + 2) (buf p)\<rparr>), p)
               \<in> measure (\<lambda>p. length (buf p))"
    by (simp add: keep)
qed

section \<open>Body\<close>

text \<open>
  \<open>_parse_body\<close> starts with \<open>data = b''.join(self._buf)\<close>. No class of the module
  assigns an attribute \<open>_buf\<close> (the buffer is \<open>buf\<close>), so this statement raises
  \<open>AttributeError\<close> and nothing after it runs. The value returned would be \<open>None\<close> or a
  number.
\<close>

definition parse_body :: "HttpParser \<Rightarrow> (error + int option) \<times> HttpParser" where
  "parse_body p = (Inl AttributeError, p)"

section \<open>Feeding data\<close>

text \<open>
  The loop \<open>while True\<close> of \<open>feed_data\<close>. The result is \<open>None\<close> when the loop never
  ends; otherwise the error raised or the value returned (Python's \<open>None\<close> is the inner
  \<open>None\<close>), with the parser as the call left it. No branch of the loop body applies in
  position 3, so the loop goes round with the same state.
\<close>

partial_function (option) feed_loop :: "HttpParser \<Rightarrow> ((error + int option) \<times> HttpParser) option" where
  "feed_loop p =
     (if position p = 0 then
        (case find_sub CRLF (buf p) of
           None \<Rightarrow> Some (Inr None, p)
         | Some idx \<Rightarrow>
             (case parse_first_line (p\<lparr>position := 1\<rparr>) (take idx (buf p)) of
                (Inl e, p1) \<Rightarrow> Some (Inl e, p1)
              | (Inr u, p1) \<Rightarrow> feed_loop (p1\<lparr>buf := drop (idx + 2) (buf p1)\<rparr>)))
      else if \<not> is_headers_complete p then
        (case parse_headers p of
           (r, p1) \<Rightarrow> if \<not> truthy r then Some (Inr None, p1) else feed_loop p1)
      else if \<not> is_message_complete p then
        (case parse_body p of
           (Inl e, p1) \<Rightarrow> Some (Inl e, p1)
         | (Inr None, p1) \<Rightarrow> Some (Inr None, p1)
         | (Inr (Some ret), p1) \<Rightarrow>
             if ret < 0 then Some (Inr (Some ret), p1)
             else if ret = 0 then Some (Inr None, callback on_message_complete p1)
             else feed_loop p1)
      else feed_loop p)"

declare feed_loop.simps [code]

definition feed_data :: "HttpParser \<Rightarrow> bytes \<Rightarrow> ((error + int option) \<times> HttpParser) option" where
  "feed_data p data =
     (if data = [] then
        (if \<not> is_message_complete p
         then Some (Inr None, callback on_message_complete (p\<lparr>position := 3\<rparr>))
         else Some (Inr None, p))
      else feed_loop (p\<lparr>buf := buf p @ data\<rparr>))"

section \<open>Events\<close>

text \<open>
  \<open>pulsar/utils/pylib/events.py\<close>. An \<open>Event\<close> keeps its name, the flag \<open>_onetime\<close>, its
  owner \<open>_self\<close> (\<open>None\<close> once a one-time event has fired), the list \<open>_handlers\<close> (\<open>None\<close>
  until the first \<open>bind\<close>) and the future \<open>_waiter\<close>. Owners, handlers and futures are
  opaque and named by strings. What \<open>fire\<close> does to the outside is recorded as a list of
  effects, in order: each call of a handler with its arguments, and the resolution of the
  waiter. Handlers here return normally and do not call back into the event.
\<close>

text \<open>
  A value passed to \<open>fire\<close> as \<open>exc\<close> or \<open>data\<close>: its name and its truth value. \<open>fire\<close>
  chooses the arguments of the handlers by \<open>exc is not None\<close> and \<open>data is not None\<close>, but
  the resolution of the waiter by the truth value of \<open>exc\<close> (\<open>if exc:\<close>).
\<close>

datatype arg = Arg (arg_name: string) (arg_truth: bool)

record Event =
  name :: string
  onetime :: bool
  self :: "string option"
  handlers :: "string list option"
  waiter :: "string option"

datatype effect =
  call_exc string string string
  | call_data string string string
  | call string string
  | set_exception string string
  | set_result string string

definition Event_init :: "string \<Rightarrow> string option \<Rightarrow> bool \<Rightarrow> Event" where
  "Event_init n ob ot = \<lparr>name = n, onetime = ot, self = ob, handlers = None, waiter = None\<rparr>"

definition fired :: "Event \<Rightarrow> bool" where
  "fired ev \<longleftrightarrow> self ev = None"

definition bind :: "Event \<Rightarrow> string \<Rightarrow> error + Event" where
  "bind ev cb =
     (if self ev = None then Inl RuntimeError
      else Inr (ev\<lparr>handlers :=
                  Some ((case handlers ev of None \<Rightarrow> [] | Some hs \<Rightarrow> hs) @ [cb])\<rparr>))"

text \<open>The calls made by \<open>fire\<close> when the list of handlers is not empty.\<close>

definition call_handlers :: "string list \<Rightarrow> string \<Rightarrow> arg option \<Rightarrow> arg option \<Rightarrow> effect list" where
  "call_handlers hs ob exc data =
     (case exc of
        Some e \<Rightarrow> map (\<lambda>h. call_exc h ob (arg_name e)) hs
      | None \<Rightarrow>
          (case data of
             Some d \<Rightarrow> map (\<lambda>h. call_data h ob (arg_name d)) hs
           | None \<Rightarrow> map (\<lambda>h. call h ob) hs))"

text \<open>\<open>if exc:\<close> holds for a value that is not \<open>None\<close> and is true.\<close>

definition exc_truthy :: "arg option \<Rightarrow> bool" where
  "exc_truthy exc = (case exc of None \<Rightarrow> False | Some e \<Rightarrow> arg_truth e)"

text \<open>
  The resolution of the waiter: \<open>set_exception(exc)\<close> when \<open>exc\<close> is true, otherwise
  \<open>set_result(o)\<close>.
\<close>

definition resolve_waiter :: "string \<Rightarrow> string \<Rightarrow> arg option \<Rightarrow> effect" where
  "resolve_waiter w ob exc =
     (case exc of
        None \<Rightarrow> set_result w ob
      | Some e \<Rightarrow> if exc_truthy exc then set_exception w (arg_name e) else set_result w ob)"

definition fire :: "Event \<Rightarrow> arg option \<Rightarrow> arg option \<Rightarrow> Event \<times> effect list" where
  "fire ev exc data =
     (case self ev of
        None \<Rightarrow> (ev, [])
      | Some ob \<Rightarrow>
          let hs = handlers ev;
              ev1 = (if onetime ev then ev\<lparr>handlers := None, self := None\<rparr> else ev);
              cs = (case hs of None \<Rightarrow> [] | Some l \<Rightarrow> call_handlers l ob exc data)
          in case waiter ev1 of
               None \<Rightarrow> (ev1, cs)
             | Some w \<Rightarrow>
                 (ev1\<lparr>waiter := None\<rparr>, cs @ [resolve_waiter w ob exc]))"

text \<open>A one-time event with an owner, two handlers and a waiter.\<close>

definition example_event :: Event where
  "example_event =
     \<lparr>name = ''start'', onetime = True, self = Some ''actor'',
      handlers = Some [''h1'', ''h2''], waiter = Some ''future''\<rparr>"

section \<open>Running one test\<close>

text \<open>
  \<open>TestRequest.run_test\<close> of \<open>pulsar/apps/test/case.py\<close>. A test case is described by what
  \<open>run_test\<close> reads from it: the skip markers \<open>__unittest_skip__\<close> and the reasons
  \<open>__unittest_skip_why__\<close> of its class and of its test method (\<open>False\<close> and the empty string
  when the attribute is missing), whether it has the hooks \<open>_pre_setup\<close> and
  \<open>_post_teardown\<close>, and the outcome that \<open>run_test_function\<close> delivers for each step.
  \<open>run_test_function\<close> captures what a step raises in its outcome, so a step does not raise
  into \<open>run_test\<close>.
\<close>

datatype trace = assertion_failure | other_error

datatype outcome = no_failure | failure "trace list"

datatype step = pre_setup_step | setUp_step | testMethod_step | tearDown_step | post_teardown_step

text \<open>The calls on the runner and the steps started, in order.\<close>

datatype runner_call =
  addSkip string
  | addSuccess
  | addFailure trace
  | addError trace
  | run_test_function step

record testcase =
  class_skip :: bool
  class_skip_why :: string
  method_skip :: bool
  method_skip_why :: string
  pre_setup :: "outcome option"
  setUp :: outcome
  testMethod :: outcome
  tearDown :: outcome
  post_teardown :: "outcome option"

definition add_failure :: "outcome \<Rightarrow> runner_call list \<Rightarrow> bool \<times> runner_call list" where
  "add_failure oc log =
     (case oc of
        no_failure \<Rightarrow> (False, log)
      | failure ts \<Rightarrow>
          (True,
           log @ map (\<lambda>t. case t of assertion_failure \<Rightarrow> addFailure t
                                   | other_error \<Rightarrow> addError t) ts))"

text \<open>Python's \<open>a or b\<close> on strings: \<open>a\<close> unless it is empty.\<close>

definition py_or :: "string \<Rightarrow> string \<Rightarrow> string" where
  "py_or a b = (if a \<noteq> [] then a else b)"

text \<open>\<open>setUp\<close>, the test method and \<open>tearDown\<close>, run when the pre-setup did not fail.\<close>

definition run_body :: "testcase \<Rightarrow> runner_call list \<Rightarrow> bool \<times> runner_call list" where
  "run_body t log =
     (case add_failure (setUp t) (log @ [run_test_function setUp_step]) of
        (True, l1) \<Rightarrow> (False, l1)
      | (False, l1) \<Rightarrow>
          (case add_failure (testMethod t) (l1 @ [run_test_function testMethod_step]) of
             (f2, l2) \<Rightarrow>
               (case add_failure (tearDown t) (l2 @ [run_test_function tearDown_step]) of
                  (f3, l3) \<Rightarrow> (if f3 then False else \<not> f2, l3))))"

definition run_test :: "testcase \<Rightarrow> runner_call list \<Rightarrow> runner_call list" where
  "run_test t log =
     (if class_skip t \<or> method_skip t
      then log @ [addSkip (py_or (class_skip_why t) (method_skip_why t))]
      else
        let (s1, l1) = (case pre_setup t of
                          None \<Rightarrow> (True, log)
                        | Some oc \<Rightarrow>
                            (case add_failure oc (log @ [run_test_function pre_setup_step]) of
                               (f, l) \<Rightarrow> (\<not> f, l)));
            (s2, l2) = (if s1 then run_body t l1 else (s1, l1));
            (s3, l3) = (case post_teardown t of
                          None \<Rightarrow> (s2, l2)
                        | Some oc \<Rightarrow>
                            (case add_failure oc (l2 @ [run_test_function post_teardown_step]) of
                               (f, l) \<Rightarrow> (if f then False else s2, l)))
        in if s3 then l3 @ [addSuccess] else l3)"

text \<open>
  The reason as the specification words it: the reason of the method comes first, that of
  the class is used when the method declares none.
\<close>

definition spec_skip_reason :: "testcase \<Rightarrow> string" where
  "spec_skip_reason t = py_or (method_skip_why t) (class_skip_why t)"

definition passing_test :: testcase where
  "passing_test =
     \<lparr>class_skip = False, class_skip_why = [], method_skip = False, method_skip_why = [],
      pre_setup = None, setUp = no_failure, testMethod = no_failure, tearDown = no_failure,
      post_teardown = None\<rparr>"

definition skipped_method :: testcase where
  "skipped_method = passing_test\<lparr>method_skip := True, method_skip_why := ''not ready''\<rparr>"

definition skipped_both :: testcase where
  "skipped_both = skipped_method\<lparr>class_skip := True, class_skip_why := ''class not ready''\<rparr>"

section \<open>Spawning actors\<close>

text \<open>
  \<open>pulsar/async/concurrency.py\<close>. An actor is known here by its id, by whether it is the
  arbiter and by its attribute \<open>arbiter\<close>; its attribute \<open>proxy\<close> is the value \<open>proxy\<close> of
  it. Constructor arguments are a dictionary from names to values.
\<close>

datatype actor = Actor (actor_id: string) (is_arbiter: bool) (arbiter: "actor option")

datatype val = obj "actor option" | proxy actor | opaque string

datatype concurrency_class = MonitorConcurrency | ActorThread | ActorProcess

record Concurrency =
  conc_class :: concurrency_class
  aid :: string
  impl :: string
  commands_set :: string
  timeout :: int
  actor_class :: string
  loglevel :: "val option"
  a_kwargs :: "string \<rightharpoonup> val"
  actor :: "(string \<rightharpoonup> val) option"

text \<open>
  \<open>Concurrency.process_actor\<close>, used by the thread and the process classes. Calling
  \<open>is_arbiter\<close> on a monitor that is \<open>None\<close>, or reading \<open>proxy\<close> of an arbiter that is
  \<open>None\<close>, raises \<open>AttributeError\<close>.
\<close>

definition Concurrency_process_actor :: "Concurrency \<Rightarrow> actor option \<Rightarrow> error + Concurrency" where
  "Concurrency_process_actor c monitor =
     (case monitor of
        None \<Rightarrow> Inl AttributeError
      | Some m \<Rightarrow>
          (case (if is_arbiter m then Some m else arbiter m) of
             None \<Rightarrow> Inl AttributeError
           | Some a \<Rightarrow>
               Inr (c\<lparr>a_kwargs := (a_kwargs c)(''arbiter'' \<mapsto> proxy a, ''monitor'' \<mapsto> proxy m)\<rparr>)))"

text \<open>
  \<open>MonitorConcurrency.process_actor\<close>: the argument itself is stored under \<open>arbiter\<close>, the
  timeout is set to 0 and the actor is constructed with the arguments collected so far.
\<close>

definition MonitorConcurrency_process_actor :: "Concurrency \<Rightarrow> actor option \<Rightarrow> error + Concurrency" where
  "MonitorConcurrency_process_actor c arb =
     Inr (c\<lparr>a_kwargs := (a_kwargs c)(''arbiter'' \<mapsto> obj arb),
            timeout := 0,
            actor := Some ((a_kwargs c)(''arbiter'' \<mapsto> obj arb))\<rparr>)"

definition process_actor :: "Concurrency \<Rightarrow> actor option \<Rightarrow> error + Concurrency" where
  "process_actor c monitor =
     (case conc_class c of
        MonitorConcurrency \<Rightarrow> MonitorConcurrency_process_actor c monitor
      | ActorThread \<Rightarrow> Concurrency_process_actor c monitor
      | ActorProcess \<Rightarrow> Concurrency_process_actor c monitor)"

text \<open>
  \<open>make\<close>. \<open>fresh\<close> is what \<open>gen_unique_id()\<close> returns when it is called; \<open>loglevel\<close> is
  popped from the arguments.
\<close>

definition make :: "concurrency_class \<Rightarrow> string \<Rightarrow> string \<Rightarrow> string \<Rightarrow> int \<Rightarrow> actor option \<Rightarrow> string
    \<Rightarrow> string \<Rightarrow> (string \<rightharpoonup> val) \<Rightarrow> error + Concurrency" where
  "make k fresh kind a_class tmo monitor a cmds kwargs =
     process_actor
       \<lparr>conc_class = k,
        aid = (if a = [] then
                 (case monitor of
                    Some m \<Rightarrow> if is_arbiter m then ''arbiter'' else take 8 fresh
                  | None \<Rightarrow> take 8 fresh)
               else a),
        impl = kind, commands_set = cmds, timeout = tmo, actor_class = a_class,
        loglevel = kwargs ''loglevel'',
        a_kwargs = kwargs(''loglevel'' := None),
        actor = None\<rparr>
       monitor"

definition concurrency :: "string \<Rightarrow> string \<Rightarrow> string \<Rightarrow> int \<Rightarrow> actor option \<Rightarrow> string \<Rightarrow> string
    \<Rightarrow> (string \<rightharpoonup> val) \<Rightarrow> error + Concurrency" where
  "concurrency fresh kind a_class tmo monitor a cmds params =
     (if kind = ''monitor'' then make MonitorConcurrency fresh kind a_class tmo monitor a cmds params
      else if kind = ''thread'' then make ActorThread fresh kind a_class tmo monitor a cmds params
      else if kind = ''process'' then make ActorProcess fresh kind a_class tmo monitor a cmds params
      else Inl ValueError)"

definition root_actor :: actor where
  "root_actor = Actor ''arbiter'' True None"

definition worker_monitor :: actor where
  "worker_monitor = Actor ''m1'' False (Some root_actor)"

subsection \<open>Terminating a thread\<close>

text \<open>
  \<open>ActorThread.terminate\<close> calls \<open>self.actor.stop(force=True)\<close> and then runs
  \<open>while result.called: time.sleep(0.1)\<close>. The attribute \<open>called\<close> of the result is set by
  the actor's own thread, so what the loop sees is given from outside: \<open>called k\<close> is the
  value read at the check number \<open>k\<close>. The effects are the stop request and one \<open>sleep\<close>
  for each \<open>time.sleep(0.1)\<close>. The loop may go on for ever, which is the value \<open>None\<close>.
\<close>

datatype host_effect = stop_force | sleep

partial_function (option) terminate_wait :: "(nat \<Rightarrow> bool) \<Rightarrow> nat \<Rightarrow> host_effect list \<Rightarrow> (host_effect list \<times> nat) option" where
  "terminate_wait called k done =
     (if called k then terminate_wait called (Suc k) (done @ [sleep]) else Some (done, k))"

declare terminate_wait.simps [code]

text \<open>The effects of \<open>terminate\<close> and the number of the check at which it returned.\<close>

definition terminate :: "(nat \<Rightarrow> bool) \<Rightarrow> (host_effect list \<times> nat) option" where
  "terminate called = terminate_wait called 0 [stop_force]"

text \<open>A result that is delivered between the third and the fourth check.\<close>

definition delivered_late :: "nat \<Rightarrow> bool" where
  "delivered_late k \<longleftrightarrow> 3 \<le> k"

text \<open>The descriptor that \<open>concurrency\<close> builds for a monitor spawned by the arbiter.\<close>

definition monitor_descriptor :: Concurrency where
  "monitor_descriptor =
     \<lparr>conc_class = MonitorConcurrency, aid = ''arbiter'', impl = ''monitor'',
      commands_set = ''commands'', timeout = 0, actor_class = ''Monitor'', loglevel = None,
      a_kwargs = [''arbiter'' \<mapsto> obj (Some root_actor)],
      actor = Some [''arbiter'' \<mapsto> obj (Some root_actor)]\<rparr>"

section \<open>Inputs used below\<close>

definition request_hello :: bytes where
  "request_hello =
     ''GET /x HTTP/1.1'' @ CRLF @ ''Host: a'' @ CRLF @ ''Content-Length: 5'' @ CRLF @ CRLF
     @ ''hello''"

definition response_10 :: bytes where
  "response_10 = ''HTTP/1.0 200 OK'' @ CRLF @ ''Content-Length: 5'' @ CRLF @ CRLF"

definition response_xyz :: bytes where
  "response_xyz = ''HTTP/1.1 XYZ'' @ CRLF"

definition request_close :: bytes where
  "request_close = ''GET / HTTP/1.1'' @ CRLF @ ''Connection: close'' @ CRLF @ CRLF"

text \<open>A request parser after end of input was signalled by an empty \<open>feed_data\<close>.\<close>

definition eof_parser :: HttpParser where
  "eof_parser = callback on_message_complete (HttpRequestParser\<lparr>position := 3\<rparr>)"

section \<open>Properties of the parser\<close>

lemma flags_connection_bytes: "connection (Bytes v) p = p"
  by (simp add: connection_def)

text \<open>
  No header block changes the three connection flags (their bits are \<open>2 + 4 + 8 = 14\<close>):
  a header line only ever adds the chunked flag.
\<close>

lemma header_line_connection_flags:
  "flags (header_line c p) AND 14 = flags p AND 14"
  by (simp add: header_line_def Let_def callback_def flags_connection_bytes F_CHUNKED_def
      bit.conj_disj_distrib2 split: option.splits)

lemma parse_headers_connection_flags:
  "flags (snd (parse_headers p)) AND 14 = flags p AND 14"
proof (induction p rule: parse_headers.induct)
  case (1 p)
  show ?case
  proof (cases "find_sub CRLF (buf p)")
    case None
    then show ?thesis by (subst parse_headers.simps) simp
  next
    case (Some idx)
    show ?thesis
    proof (cases "idx = 0")
      case True
      with Some show ?thesis by (subst parse_headers.simps) (simp add: callback_def)
    next
      case False
      with Some 1 show ?thesis
        by (subst parse_headers.simps) (simp add: header_line_connection_flags)
    qed
  qed
qed

lemma feed_loop_returns_incomplete:
  assumes "feed_loop p = Some y"
  shows "\<not> is_message_complete p"
  using assms
proof (rule feed_loop.raw_induct [rotated], goal_cases)
  case (1 f q r)
  show ?case
  proof
    assume c: "is_message_complete q"
    then have "position q \<noteq> 0" "is_headers_complete q"
      by (simp_all add: is_message_complete_def is_headers_complete_def)
    with c 1(2) have "f q = Some r" by simp
    with 1(1) c show False by blast
  qed
qed

lemma feed_loop_complete: "is_message_complete p \<Longrightarrow> feed_loop p = None"
  using feed_loop_returns_incomplete [of p] by (cases "feed_loop p") auto

lemma feed_data_complete_nonempty:
  "is_message_complete p \<Longrightarrow> data \<noteq> [] \<Longrightarrow> feed_data p data = None"
  by (simp add: feed_data_def feed_loop_complete is_message_complete_def)

lemma keep_alive_http11:
  assumes "ptype p = HTTP_RESPONSE" and "status_code p = Some sc"
    and "version_major p = Some 1" and "version_minor p = Some 1"
    and "flags p AND F_CONNECTION_CLOSE = 0" and "content_length p \<noteq> maxsize"
  shows "should_keep_alive p = Inr True"
  using assms
  by (simp add: should_keep_alive_def not_needs_eof_def http_message_needs_eof_def)

text \<open>
  Claim C1. One call of \<open>feed_data\<close> with the whole request \<open>request_hello\<close> sets the
  method \<open>GET\<close> and the version \<open>1.1\<close> and calls \<open>on_url\<close>, \<open>on_header\<close> for \<open>Host\<close> and
  for \<open>Content-Length\<close> with value \<open>5\<close>, and \<open>on_headers_complete\<close>. It then returns:
  \<open>_parse_headers\<close> returns \<open>None\<close> after the empty line, which \<open>feed_data\<close> takes for
  the signal to leave its loop. The five bytes \<open>hello\<close> stay in the buffer, the position is 2
  and neither \<open>on_body\<close> nor \<open>on_message_complete\<close> has been called.
\<close>

theorem feed_data_request_hello:
  "map_option (\<lambda>(r, p). (r, http_method p, get_http_version p, calls p, buf p, position p,
                           is_message_complete p))
     (feed_data HttpRequestParser request_hello)
   = Some (Inr None, Some ''GET'', Some ''1.1'',
           [on_url ''/x'', on_header ''Host'' ''a'', on_header ''Content-Length'' ''5'',
            on_headers_complete],
           ''hello'', 2, False)"
  by code_simp

text \<open>
  Claim C2. A response parser fed the HTTP/1.0 response \<open>response_10\<close>, which has no
  \<open>Connection\<close> header, answers \<open>True\<close> to \<open>should_keep_alive\<close>: for a version that is
  not above 1.0 the method returns \<open>False\<close> when the keep-alive flag is set, not when it is
  missing, and the declared length then makes \<open>http_message_needs_eof\<close> false.
\<close>

theorem should_keep_alive_response_10:
  "map_option (\<lambda>(r, p). (r, get_http_version p, calls p, flags p, should_keep_alive p))
     (feed_data HttpResponseParser response_10)
   = Some (Inr None, Some ''1.0'',
           [on_status ''200 OK'', on_header ''Content-Length'' ''5'', on_headers_complete],
           0, Inr True)"
  by code_simp

text \<open>
  Claim C3. A response parser fed the status line \<open>HTTP/1.1 XYZ\<close> fails, and no
  \<open>on_headers_complete\<close> has been called: \<open>is_headers_complete\<close> is false afterwards. The
  error raised is \<open>ValueError\<close>, not \<open>HttpParserInvalidStatusError\<close>: the message of the
  latter is built with the format \<open>"Invalid status %"\<close>, whose conversion is incomplete.
\<close>

theorem feed_data_response_xyz:
  "map_option (\<lambda>(r, p). (r, is_headers_complete p, position p, calls p))
     (feed_data HttpResponseParser response_xyz)
   = Some (Inl ValueError, False, 1, [])"
  by code_simp

text \<open>
  Claim C4. A request whose header block holds \<open>Connection: close\<close> leaves the flag set
  empty: the header is reported through \<open>on_header\<close>, but \<open>_connection\<close> compares the
  \<open>bytes\<close> value with \<open>str\<close> literals, which never equal it, so no flag is set.
\<close>

theorem feed_data_connection_close:
  "map_option (\<lambda>(r, p). (r, calls p, flags p, flags p AND F_CONNECTION_CLOSE))
     (feed_data HttpRequestParser request_close)
   = Some (Inr None,
           [on_url ''/'', on_header ''Connection'' ''close'', on_headers_complete], 0, 0)"
  by code_simp

text \<open>
  Claim C9. \<open>feed_data\<close> does not return on every input. A parser that reached position 3
  through an empty \<open>feed_data\<close> and is then fed the byte \<open>x\<close> appends it to the buffer and
  enters the loop, where no branch applies in position 3: the call never returns.
\<close>

theorem feed_data_after_complete:
  "feed_data HttpRequestParser [] = Some (Inr None, eof_parser)
   \<and> position eof_parser = 3
   \<and> feed_data eof_parser ''x'' = None"
proof -
  have c: "is_message_complete eof_parser"
    by (simp add: is_message_complete_def eof_parser_def callback_def)
  have "feed_data eof_parser ''x'' = None"
    by (rule feed_data_complete_nonempty [OF c]) simp
  moreover have "feed_data HttpRequestParser [] = Some (Inr None, eof_parser)"
    by (simp add: feed_data_def is_message_complete_def eof_parser_def HttpRequestParser_def
        init_parser_def)
  moreover have "position eof_parser = 3"
    by (simp add: eof_parser_def callback_def)
  ultimately show ?thesis by simp
qed

text \<open>
  Claim C10. Feeding empty data to a parser whose message is complete returns at once and
  changes nothing: the position stays what it was and no callback is added, so
  \<open>on_message_complete\<close> is not called again.
\<close>

theorem feed_data_empty_complete:
  "is_message_complete p \<Longrightarrow> feed_data p [] = Some (Inr None, p)"
  by (simp add: feed_data_def)

theorem feed_data_empty_complete_witness:
  "is_message_complete eof_parser
   \<and> feed_data eof_parser [] = Some (Inr None, eof_parser)
   \<and> position eof_parser = 3
   \<and> calls eof_parser = [on_message_complete]"
proof -
  have c: "is_message_complete eof_parser"
    by (simp add: is_message_complete_def eof_parser_def callback_def)
  show ?thesis
    using c feed_data_empty_complete [OF c]
    by (simp add: eof_parser_def callback_def HttpRequestParser_def init_parser_def)
qed

section \<open>Properties of events\<close>

text \<open>
  Claim C6. For a one-time event that has not fired: \<open>bind\<close> appends the callback to the
  list of handlers; and after one \<open>fire\<close>, a second \<open>fire\<close> (with any arguments) calls no
  handler, resolves no waiter and leaves the event as it is, and \<open>bind\<close> fails with the
  error the source raises for it, \<open>RuntimeError\<close>.
\<close>

theorem onetime_event_fire_bind:
  assumes "onetime ev" and "\<not> fired ev"
  shows "bind ev cb =
           Inr (ev\<lparr>handlers := Some ((case handlers ev of None \<Rightarrow> [] | Some hs \<Rightarrow> hs) @ [cb])\<rparr>)
         \<and> fire (fst (fire ev exc data)) exc' data' = (fst (fire ev exc data), [])
         \<and> bind (fst (fire ev exc data)) cb = Inl RuntimeError"
proof -
  from assms(2) obtain ob where ob: "self ev = Some ob"
    by (auto simp: fired_def)
  have gone: "self (fst (fire ev exc data)) = None"
    using assms(1) ob by (simp add: fire_def Let_def split: option.splits)
  have "bind ev cb =
          Inr (ev\<lparr>handlers := Some ((case handlers ev of None \<Rightarrow> [] | Some hs \<Rightarrow> hs) @ [cb])\<rparr>)"
    using ob by (simp add: bind_def)
  moreover have "fire (fst (fire ev exc data)) exc' data' = (fst (fire ev exc data), [])"
    using gone by (simp add: fire_def)
  moreover have "bind (fst (fire ev exc data)) cb = Inl RuntimeError"
    using gone by (simp add: bind_def)
  ultimately show ?thesis by simp
qed

theorem onetime_event_fire_bind_witness:
  "onetime example_event \<and> \<not> fired example_event
   \<and> fire example_event None (Some (Arg ''d'' True)) =
       (example_event\<lparr>handlers := None, self := None, waiter := None\<rparr>,
        [call_data ''h1'' ''actor'' ''d'', call_data ''h2'' ''actor'' ''d'',
         set_result ''future'' ''actor''])
   \<and> bind example_event ''h3'' = Inr (example_event\<lparr>handlers := Some [''h1'', ''h2'', ''h3'']\<rparr>)
   \<and> fire (fst (fire example_event None (Some (Arg ''d'' True)))) None None =
       (fst (fire example_event None (Some (Arg ''d'' True))), [])
   \<and> bind (fst (fire example_event None (Some (Arg ''d'' True)))) ''h3'' = Inl RuntimeError"
proof -
  have a: "onetime example_event" and b: "\<not> fired example_event"
    by (simp_all add: example_event_def fired_def)
  have c: "fire example_event None (Some (Arg ''d'' True)) =
       (example_event\<lparr>handlers := None, self := None, waiter := None\<rparr>,
        [call_data ''h1'' ''actor'' ''d'', call_data ''h2'' ''actor'' ''d'',
         set_result ''future'' ''actor''])"
    by (simp add: example_event_def fire_def call_handlers_def resolve_waiter_def)
  have d: "(case handlers example_event of None \<Rightarrow> [] | Some hs \<Rightarrow> hs) @ [''h3'']
           = [''h1'', ''h2'', ''h3'']"
    by (simp add: example_event_def)
  show ?thesis
    using a b c onetime_event_fire_bind [OF a b, of "''h3''" None "Some (Arg ''d'' True)" None None]
    unfolding d by simp
qed

section \<open>Properties of the test runner\<close>

text \<open>
  Claim C5, as stated, fails where the class and the method both carry a skip reason: the
  skip recorded for \<open>skipped_both\<close> has the reason of the class, while the reason of the
  method, \<open>not ready\<close>, is the one the specification's rule selects.
\<close>

theorem run_test_skipped_both:
  "run_test skipped_both [] = [addSkip ''class not ready'']
   \<and> spec_skip_reason skipped_both = ''not ready''
   \<and> run_test skipped_both [] \<noteq> [addSkip (spec_skip_reason skipped_both)]"
  by (simp add: run_test_def spec_skip_reason_def py_or_def skipped_both_def skipped_method_def
      passing_test_def)

text \<open>
  Claim C5, amended. For a test whose class or method carries the skip marker, \<open>run_test\<close>
  adds exactly one entry to the runner's record: a skip whose reason is the reason of the
  class when that is not empty and the reason of the method otherwise. No step is started
  (none of \<open>setUp\<close>, the test method, \<open>tearDown\<close>) and no success is recorded.
\<close>

theorem run_test_skip:
  assumes "class_skip t \<or> method_skip t"
  shows "run_test t log =
           log @ [addSkip (if class_skip_why t \<noteq> [] then class_skip_why t else method_skip_why t)]
         \<and> addSuccess \<notin> set (drop (length log) (run_test t log))
         \<and> run_test_function s \<notin> set (drop (length log) (run_test t log))"
  using assms by (simp add: run_test_def py_or_def)

theorem run_test_skip_witness:
  "(class_skip skipped_method \<or> method_skip skipped_method)
   \<and> run_test skipped_method [] = [addSkip ''not ready'']
   \<and> addSuccess \<notin> set (run_test skipped_method [])
   \<and> run_test_function setUp_step \<notin> set (run_test skipped_method [])"
proof -
  have h: "class_skip skipped_method \<or> method_skip skipped_method"
    by (simp add: skipped_method_def)
  have r: "(if class_skip_why skipped_method \<noteq> [] then class_skip_why skipped_method
            else method_skip_why skipped_method) = ''not ready''"
    by (simp add: skipped_method_def passing_test_def)
  show ?thesis
    using h run_test_skip [OF h, of "[]" setUp_step] unfolding r by simp
qed

section \<open>Properties of the spawner\<close>

text \<open>
  For the kind \<open>monitor\<close>, whatever the arguments: the constructor arguments of the
  descriptor are the given ones without \<open>loglevel\<close>, with the actor passed in stored
  itself under \<open>arbiter\<close>; the timeout is 0.
\<close>

lemma concurrency_monitor_general:
  "\<exists>d. concurrency fresh ''monitor'' a_class tmo mon a0 cmds params = Inr d
       \<and> a_kwargs d = (params(''loglevel'' := None))(''arbiter'' \<mapsto> obj mon)
       \<and> timeout d = 0"
  by (simp add: concurrency_def make_def process_actor_def MonitorConcurrency_process_actor_def)

text \<open>
  Claim C7, as stated, fails for the kind \<open>monitor\<close>: the descriptor built for a monitor
  under the root actor has no entry \<open>monitor\<close> among the constructor arguments, and its
  entry \<open>arbiter\<close> is the actor passed in, not a proxy of it.
\<close>

theorem concurrency_monitor_kwargs:
  "concurrency ''0123456789'' ''monitor'' ''Monitor'' 30 (Some root_actor) [] ''commands'' Map.empty
     = Inr monitor_descriptor
   \<and> a_kwargs monitor_descriptor ''monitor'' = None
   \<and> a_kwargs monitor_descriptor ''arbiter'' = Some (obj (Some root_actor))
   \<and> a_kwargs monitor_descriptor ''arbiter'' \<noteq> Some (proxy root_actor)"
  by (simp add: concurrency_def make_def process_actor_def MonitorConcurrency_process_actor_def
      monitor_descriptor_def root_actor_def)

text \<open>
  Claim C7, amended. For the kinds \<open>thread\<close> and \<open>process\<close>, with a monitor \<open>m\<close> whose arbiter
  reference \<open>a\<close> is \<open>m\<close> itself when \<open>m\<close> is the root actor and the attribute \<open>arbiter\<close> of \<open>m\<close>
  otherwise, \<open>concurrency\<close> returns a descriptor whose constructor arguments hold the proxy
  of \<open>a\<close> under \<open>arbiter\<close> and the proxy of \<open>m\<close> under \<open>monitor\<close>.
\<close>

theorem concurrency_thread_process_kwargs:
  assumes "kind = ''thread'' \<or> kind = ''process''"
    and "(is_arbiter m \<and> a = m) \<or> (\<not> is_arbiter m \<and> arbiter m = Some a)"
  shows "\<exists>d. concurrency fresh kind a_class tmo (Some m) a0 cmds params = Inr d
             \<and> a_kwargs d ''arbiter'' = Some (proxy a)
             \<and> a_kwargs d ''monitor'' = Some (proxy m)"
proof -
  from assms(2) have a: "(if is_arbiter m then Some m else arbiter m) = Some a"
    by auto
  from assms(1) show ?thesis
  proof
    assume "kind = ''thread''"
    then show ?thesis
      by (simp add: concurrency_def make_def process_actor_def Concurrency_process_actor_def a)
  next
    assume "kind = ''process''"
    then show ?thesis
      by (simp add: concurrency_def make_def process_actor_def Concurrency_process_actor_def a)
  qed
qed

theorem concurrency_thread_process_kwargs_witness:
  "(''thread'' = ''thread'' \<or> ''thread'' = ''process'')
   \<and> ((is_arbiter worker_monitor \<and> root_actor = worker_monitor)
        \<or> (\<not> is_arbiter worker_monitor \<and> arbiter worker_monitor = Some root_actor))
   \<and> (\<exists>d. concurrency ''0123456789'' ''thread'' ''Actor'' 30 (Some worker_monitor) [] ''commands''
               Map.empty = Inr d
            \<and> aid d = ''01234567''
            \<and> a_kwargs d ''arbiter'' = Some (proxy root_actor)
            \<and> a_kwargs d ''monitor'' = Some (proxy worker_monitor))"
proof -
  have k: "''thread'' = ''thread'' \<or> ''thread'' = ''process''"
    by simp
  have m: "(is_arbiter worker_monitor \<and> root_actor = worker_monitor)
        \<or> (\<not> is_arbiter worker_monitor \<and> arbiter worker_monitor = Some root_actor)"
    by (simp add: worker_monitor_def)
  from concurrency_thread_process_kwargs [OF k m]
  obtain d where d: "concurrency ''0123456789'' ''thread'' ''Actor'' 30 (Some worker_monitor) []
        ''commands'' Map.empty = Inr d"
    "a_kwargs d ''arbiter'' = Some (proxy root_actor)"
    "a_kwargs d ''monitor'' = Some (proxy worker_monitor)"
    by blast
  from d(1) have "aid d = ''01234567''"
    by (auto simp: concurrency_def make_def process_actor_def Concurrency_process_actor_def
        worker_monitor_def root_actor_def)
  with d k m show ?thesis by blast
qed

lemma terminate_wait_returns:
  assumes "terminate_wait called k done = Some r"
  shows "\<exists>j. \<not> called j"
  using assms
proof (rule terminate_wait.raw_induct [rotated], goal_cases)
  case (1 f c k d r)
  show ?case
  proof (cases "c k")
    case True
    with 1(2) have "f c (Suc k) (d @ [sleep]) = Some r" by simp
    then show ?thesis by (rule 1(1))
  next
    case False
    then show ?thesis by blast
  qed
qed

lemma terminate_delivered: "(\<And>k. called k) \<Longrightarrow> terminate called = None"
  using terminate_wait_returns [of called 0 "[stop_force]"]
  by (cases "terminate called") (auto simp: terminate_def)

text \<open>
  Claim C8. With a result that is not yet delivered when \<open>terminate\<close> first looks at it, and
  is delivered by the fourth check, \<open>terminate\<close> requests the forced stop and returns at
  once, at check 0 and without any sleep: it returns before the result is delivered. The
  loop runs while \<open>result.called\<close> is true, not until it is.
\<close>

theorem terminate_delivered_late:
  "terminate delivered_late = Some ([stop_force], 0)
   \<and> \<not> delivered_late 0 \<and> delivered_late 3"
  by (simp add: terminate_def terminate_wait.simps delivered_late_def)

end
